theory Spec2Isabelle
  imports Main "HOL-Library.Word"
begin

section \<open>Device memory primitives and the device pointer wrapper\<close>

text \<open>
  A shallow embedding of \<^verbatim>\<open>cuda/utils/Memory.h\<close>: the four free functions
  \<^verbatim>\<open>gpu_malloc\<close>, \<^verbatim>\<open>gpu_free\<close>, \<^verbatim>\<open>gpu_memcpy_h2d\<close>, \<^verbatim>\<open>gpu_memcpy_d2h\<close> and the
  class template \<^verbatim>\<open>DevicePtrWrapper\<close>.
\<close>

subsection \<open>The device runtime\<close>

text \<open>
  \<^verbatim>\<open>size_t\<close> and device or host addresses are 64-bit words; the null pointer is the
  address 0. Comparison of \<^verbatim>\<open>size_t\<close> values is unsigned, multiplication wraps.
\<close>

type_synonym size_t = "64 word"
type_synonym ptr = "64 word"

abbreviation (input) nullptr :: ptr where
  "nullptr \<equiv> 0"

text \<open>
  The status a call of the CUDA runtime returns (\<^verbatim>\<open>cudaError_t\<close> of
  \<^verbatim>\<open>cuda_runtime.h\<close>): success, or one of the failure codes.
\<close>

datatype cudaError_t =
    cudaSuccess
  | cudaErrorInvalidValue
  | cudaErrorMemoryAllocation
  | cudaErrorOther nat

datatype cudaMemcpyKind = cudaMemcpyHostToDevice | cudaMemcpyDeviceToHost

text \<open>
  The runtime is an external collaborator. Its three entry points that the header calls
  are taken as parameters: each maps the machine state \<open>'m\<close> (host and device memory,
  the allocator's bookkeeping, whatever the runtime keeps) and the call's arguments to a
  status and the next machine state; \<^verbatim>\<open>cudaMalloc\<close> also yields the pointer it stores
  through its first argument. Every theorem below that mentions a runtime \<open>R\<close> holds
  for all such functions, so for every way the runtime may answer.
\<close>

record 'm runtime =
  cudaMalloc :: "'m \<Rightarrow> size_t \<Rightarrow> cudaError_t \<times> ptr \<times> 'm"
  cudaFree :: "'m \<Rightarrow> ptr \<Rightarrow> cudaError_t \<times> 'm"
  cudaMemcpy :: "'m \<Rightarrow> ptr \<Rightarrow> ptr \<Rightarrow> size_t \<Rightarrow> cudaMemcpyKind \<Rightarrow> cudaError_t \<times> 'm"

text \<open>
  A call of the runtime as the header issues it, with its arguments: the byte count of
  \<^verbatim>\<open>cudaMalloc\<close>, the pointer of \<^verbatim>\<open>cudaFree\<close>, and destination, source, byte count
  and direction of \<^verbatim>\<open>cudaMemcpy\<close>.
\<close>

datatype rt_call =
    CudaMalloc size_t
  | CudaFree ptr
  | CudaMemcpy ptr ptr size_t cudaMemcpyKind

text \<open>
  The world a statement of the program runs in: the machine state, and the list of the
  runtime calls issued so far, oldest first. The list is bookkeeping of the model; it
  lets a theorem count the underlying allocations and releases.
\<close>

record 'm world =
  machine :: 'm
  calls :: "rt_call list"

fun mallocs :: "rt_call list \<Rightarrow> size_t list" where
  "mallocs [] = []"
| "mallocs (CudaMalloc b # cs) = b # mallocs cs"
| "mallocs (c # cs) = mallocs cs"

fun frees :: "rt_call list \<Rightarrow> ptr list" where
  "frees [] = []"
| "frees (CudaFree p # cs) = p # frees cs"
| "frees (c # cs) = frees cs"

subsection \<open>Errors\<close>

text \<open>
  The one failure of the header: a runtime call reported a status other than success.
  A function that can fail returns \<open>error + 'a\<close>, \<open>Inl\<close> being the failure, after
  which nothing else of the caller runs.
\<close>

datatype error = RuntimeFailure cudaError_t

text \<open>
  Modelled from the spec: the macro \<^verbatim>\<open>checkCudaErrors\<close> of \<^verbatim>\<open>utils/Errors.h\<close>, which is
  not among the sources. The spec describes it as the collaborator that turns a runtime
  status other than success into a fatal failure naming the status, and lets success pass.
\<close>

definition checkCudaErrors :: "cudaError_t \<Rightarrow> error + unit" where
  "checkCudaErrors st = (if st = cudaSuccess then Inr () else Inl (RuntimeFailure st))"

subsection \<open>The primitives\<close>

text \<open>
  The template parameter \<^verbatim>\<open>T\<close> enters the primitives only through \<^verbatim>\<open>sizeof(T)\<close>, the
  argument \<open>szT\<close>; the element count, \<^verbatim>\<open>size\<close> in the source, is \<open>n\<close> here
  (\<open>size\<close> is a constant of HOL). \<^verbatim>\<open>gpu_malloc\<close> takes its pointer by reference and overwrites it;
  the model returns the new pointer.
\<close>

definition gpu_malloc ::
  "'m runtime \<Rightarrow> size_t \<Rightarrow> size_t \<Rightarrow> 'm world \<Rightarrow> error + (ptr \<times> 'm world)" where
  "gpu_malloc R szT n w =
     (case cudaMalloc R (machine w) (szT * n) of
        (st, p, m') \<Rightarrow>
          (case checkCudaErrors st of
             Inl e \<Rightarrow> Inl e
           | Inr _ \<Rightarrow> Inr (p, \<lparr>machine = m', calls = calls w @ [CudaMalloc (szT * n)]\<rparr>)))"

text \<open>
  \<^verbatim>\<open>gpu_free\<close> calls \<^verbatim>\<open>cudaFree\<close> as a statement: the status it returns is dropped.
\<close>

definition gpu_free :: "'m runtime \<Rightarrow> ptr \<Rightarrow> 'm world \<Rightarrow> error + 'm world" where
  "gpu_free R p w =
     (if p \<noteq> nullptr then
        (case cudaFree R (machine w) p of
           (st, m') \<Rightarrow> Inr \<lparr>machine = m', calls = calls w @ [CudaFree p]\<rparr>)
      else Inr w)"

definition gpu_memcpy_h2d ::
  "'m runtime \<Rightarrow> size_t \<Rightarrow> ptr \<Rightarrow> ptr \<Rightarrow> size_t \<Rightarrow> 'm world \<Rightarrow> error + 'm world" where
  "gpu_memcpy_h2d R szT device host n w =
     (if host = nullptr \<or> device = nullptr then Inr w
      else
        (case cudaMemcpy R (machine w) device host (szT * n) cudaMemcpyHostToDevice of
           (st, m') \<Rightarrow>
             (case checkCudaErrors st of
                Inl e \<Rightarrow> Inl e
              | Inr _ \<Rightarrow>
                  Inr \<lparr>machine = m',
                       calls = calls w @
                         [CudaMemcpy device host (szT * n) cudaMemcpyHostToDevice]\<rparr>)))"

definition gpu_memcpy_d2h ::
  "'m runtime \<Rightarrow> size_t \<Rightarrow> ptr \<Rightarrow> ptr \<Rightarrow> size_t \<Rightarrow> 'm world \<Rightarrow> error + 'm world" where
  "gpu_memcpy_d2h R szT host device n w =
     (if host = nullptr \<or> device = nullptr then Inr w
      else
        (case cudaMemcpy R (machine w) host device (szT * n) cudaMemcpyDeviceToHost of
           (st, m') \<Rightarrow>
             (case checkCudaErrors st of
                Inl e \<Rightarrow> Inl e
              | Inr _ \<Rightarrow>
                  Inr \<lparr>machine = m',
                       calls = calls w @
                         [CudaMemcpy host device (szT * n) cudaMemcpyDeviceToHost]\<rparr>)))"

subsection \<open>The handle\<close>

text \<open>
  The three data members of \<^verbatim>\<open>DevicePtrWrapper\<close>. The source names them
  \<^verbatim>\<open>d_external_\<close>, \<^verbatim>\<open>d_internal_\<close> and \<^verbatim>\<open>size_\<close>; a name cannot end in an underscore
  here, and \<open>size\<close> is a constant of HOL, so the fields are \<open>d_external\<close>,
  \<open>d_internal\<close> and \<open>size_mem\<close>.
\<close>

record DevicePtrWrapper =
  d_external :: ptr
  d_internal :: ptr
  size_mem :: size_t

text \<open>The default constructor: the default member initialisers.\<close>

definition DevicePtrWrapper_default :: DevicePtrWrapper where
  "DevicePtrWrapper_default = \<lparr>d_external = nullptr, d_internal = nullptr, size_mem = 0\<rparr>"

text \<open>
  The move constructor and the move assignment are defaulted (\<^verbatim>\<open>= default\<close>), so each
  moves member by member, and moving a raw pointer or a \<^verbatim>\<open>size_t\<close> copies it: the
  source object keeps its three members. Both functions return the destination and the
  moved-from source. The move assignment overwrites the destination's members and
  calls nothing else.
\<close>

definition move_construct :: "DevicePtrWrapper \<Rightarrow> DevicePtrWrapper \<times> DevicePtrWrapper" where
  "move_construct src =
     (\<lparr>d_external = d_external src, d_internal = d_internal src, size_mem = size_mem src\<rparr>,
      src)"

definition move_assign ::
  "DevicePtrWrapper \<Rightarrow> DevicePtrWrapper \<Rightarrow> DevicePtrWrapper \<times> DevicePtrWrapper" where
  "move_assign dst src =
     (dst\<lparr>d_external := d_external src, d_internal := d_internal src,
          size_mem := size_mem src\<rparr>,
      src)"

definition set_external :: "DevicePtrWrapper \<Rightarrow> ptr \<Rightarrow> DevicePtrWrapper" where
  "set_external h d = h\<lparr>d_external := d\<rparr>"

definition unset_external :: "DevicePtrWrapper \<Rightarrow> DevicePtrWrapper" where
  "unset_external h = h\<lparr>d_external := nullptr\<rparr>"

text \<open>\<^verbatim>\<open>operator=(T *dptr)\<close>: calls \<^verbatim>\<open>set_external\<close> and returns the object.\<close>

definition assign_ptr :: "DevicePtrWrapper \<Rightarrow> ptr \<Rightarrow> DevicePtrWrapper" where
  "assign_ptr h dptr = set_external h dptr"

definition isExternal :: "DevicePtrWrapper \<Rightarrow> bool" where
  "isExternal h = (d_external h \<noteq> nullptr)"

text \<open>The accessor \<^verbatim>\<open>size()\<close>.\<close>

definition size_acc :: "DevicePtrWrapper \<Rightarrow> size_t" where
  "size_acc h = size_mem h"

definition get :: "DevicePtrWrapper \<Rightarrow> ptr" where
  "get h = (if isExternal h then d_external h else d_internal h)"

definition operator_bool :: "DevicePtrWrapper \<Rightarrow> bool" where
  "operator_bool h = (get h \<noteq> nullptr)"

text \<open>
  \<^verbatim>\<open>allocate\<close>. The two guards are tested one after the other on the same members:
  \<^verbatim>\<open>gpu_free\<close> takes the pointer by value, so \<^verbatim>\<open>d_internal_\<close> is still the freed
  address when the second guard is read.
\<close>

definition allocate ::
  "'m runtime \<Rightarrow> size_t \<Rightarrow> DevicePtrWrapper \<Rightarrow> size_t \<Rightarrow> 'm world
     \<Rightarrow> error + (DevicePtrWrapper \<times> 'm world)" where
  "allocate R szT h n w =
     (if \<not> isExternal h then
        (case (if d_internal h \<noteq> nullptr \<and> size_mem h < n
               then gpu_free R (d_internal h) w else Inr w) of
           Inl e \<Rightarrow> Inl e
         | Inr w1 \<Rightarrow>
             if d_internal h \<noteq> nullptr \<and> size_mem h \<ge> n then Inr (h, w1)
             else
               (case gpu_malloc R szT n w1 of
                  Inl e \<Rightarrow> Inl e
                | Inr (p, w2) \<Rightarrow> Inr (h\<lparr>d_internal := p, size_mem := n\<rparr>, w2)))
      else Inr (h, w))"

text \<open>The destructor \<^verbatim>\<open>~DevicePtrWrapper\<close>.\<close>

definition DevicePtrWrapper_dtor ::
  "'m runtime \<Rightarrow> DevicePtrWrapper \<Rightarrow> 'm world \<Rightarrow> error + 'm world" where
  "DevicePtrWrapper_dtor R h w =
     (if d_internal h \<noteq> nullptr then gpu_free R (d_internal h) w else Inr w)"

subsection \<open>Sequences of handle operations\<close>

text \<open>
  The member functions that change a handle, as a datatype, and a driver that applies a
  list of them in order and stops at the first failure. The observers (\<^verbatim>\<open>get\<close>,
  \<^verbatim>\<open>size\<close>, \<^verbatim>\<open>isExternal\<close>, the conversion to \<^verbatim>\<open>bool\<close>) are \<^verbatim>\<open>const\<close> and change
  nothing, so they are not operations of a sequence.
\<close>

datatype handle_op =
    Allocate size_t
  | SetExternal ptr
  | UnsetExternal
  | AssignPtr ptr

fun apply_op ::
  "'m runtime \<Rightarrow> size_t \<Rightarrow> handle_op \<Rightarrow> DevicePtrWrapper \<times> 'm world
     \<Rightarrow> error + (DevicePtrWrapper \<times> 'm world)" where
  "apply_op R szT (Allocate n) (h, w) = allocate R szT h n w"
| "apply_op R szT (SetExternal d) (h, w) = Inr (set_external h d, w)"
| "apply_op R szT UnsetExternal (h, w) = Inr (unset_external h, w)"
| "apply_op R szT (AssignPtr d) (h, w) = Inr (assign_ptr h d, w)"

fun run_ops ::
  "'m runtime \<Rightarrow> size_t \<Rightarrow> handle_op list \<Rightarrow> DevicePtrWrapper \<times> 'm world
     \<Rightarrow> error + (DevicePtrWrapper \<times> 'm world)" where
  "run_ops R szT [] s = Inr s"
| "run_ops R szT (x # xs) s =
     (case apply_op R szT x s of Inl e \<Rightarrow> Inl e | Inr s' \<Rightarrow> run_ops R szT xs s')"

subsection \<open>A fake runtime\<close>

text \<open>
  A runtime to evaluate the header on. Its machine is a bump allocator (\<open>brk\<close>, the
  next address it hands out) and two byte memories. It is built from the three statuses
  its entry points report: \<^verbatim>\<open>cudaMalloc\<close> hands out \<open>brk\<close> when its status is success,
  \<^verbatim>\<open>cudaFree\<close> only reports its status, \<^verbatim>\<open>cudaMemcpy\<close> copies the bytes when its status
  is success. It is used at concrete inputs only; no general theorem depends on it.
\<close>

record machine =
  brk :: ptr
  device_mem :: "ptr \<Rightarrow> 8 word"
  host_mem :: "ptr \<Rightarrow> 8 word"

definition copy_bytes ::
  "(ptr \<Rightarrow> 8 word) \<Rightarrow> ptr \<Rightarrow> (ptr \<Rightarrow> 8 word) \<Rightarrow> ptr \<Rightarrow> size_t \<Rightarrow> ptr \<Rightarrow> 8 word" where
  "copy_bytes dst_mem dst src_mem src count =
     (\<lambda>a. if a - dst < count then src_mem (src + (a - dst)) else dst_mem a)"

definition fake_runtime :: "cudaError_t \<Rightarrow> cudaError_t \<Rightarrow> cudaError_t \<Rightarrow> machine runtime" where
  "fake_runtime malloc_st free_st memcpy_st =
     \<lparr>cudaMalloc = (\<lambda>m bytes.
        if malloc_st = cudaSuccess
        then (cudaSuccess, brk m, m\<lparr>brk := brk m + bytes + 1\<rparr>)
        else (malloc_st, nullptr, m)),
      cudaFree = (\<lambda>m p. (free_st, m)),
      cudaMemcpy = (\<lambda>m dst src count kind.
        if memcpy_st = cudaSuccess
        then (case kind of
                cudaMemcpyHostToDevice \<Rightarrow>
                  (cudaSuccess,
                   m\<lparr>device_mem := copy_bytes (device_mem m) dst (host_mem m) src count\<rparr>)
              | cudaMemcpyDeviceToHost \<Rightarrow>
                  (cudaSuccess,
                   m\<lparr>host_mem := copy_bytes (host_mem m) dst (device_mem m) src count\<rparr>))
        else (memcpy_st, m))\<rparr>"

text \<open>The fake runtime with every call succeeding.\<close>

definition ok_runtime :: "machine runtime" where
  "ok_runtime = fake_runtime cudaSuccess cudaSuccess cudaSuccess"

text \<open>
  A starting machine and world: the first address handed out is \<open>0x1000\<close>, host
  memory holds the byte 7 everywhere and device memory the byte 0, and no runtime call
  has been issued.
\<close>

definition machine0 :: machine where
  "machine0 = \<lparr>brk = 0x1000, device_mem = (\<lambda>a. 0), host_mem = (\<lambda>a. 7)\<rparr>"

definition world0 :: "machine world" where
  "world0 = \<lparr>machine = machine0, calls = []\<rparr>"

subsection \<open>Scenarios\<close>

text \<open>
  Two allocations in a row on a default-constructed handle: \<^verbatim>\<open>allocate(n1)\<close>, then
  \<^verbatim>\<open>allocate(n2)\<close> on the result.
\<close>

definition allocate_twice ::
  "'m runtime \<Rightarrow> size_t \<Rightarrow> size_t \<Rightarrow> size_t \<Rightarrow> 'm world
     \<Rightarrow> error + (DevicePtrWrapper \<times> 'm world)" where
  "allocate_twice R szT n1 n2 w =
     (case allocate R szT DevicePtrWrapper_default n1 w of
        Inl e \<Rightarrow> Inl e
      | Inr (h1, w1) \<Rightarrow> allocate R szT h1 n2 w1)"

text \<open>
  The two objects of a move, the destination and the moved-from source, both reach the
  end of their lifetime: the destructor runs on the source, then on the destination.
\<close>

definition destroy_both ::
  "'m runtime \<Rightarrow> DevicePtrWrapper \<times> DevicePtrWrapper \<Rightarrow> 'm world \<Rightarrow> error + 'm world" where
  "destroy_both R hs w =
     (case hs of
        (dst, src) \<Rightarrow>
          (case DevicePtrWrapper_dtor R src w of
             Inl e \<Rightarrow> Inl e
           | Inr w1 \<Rightarrow> DevicePtrWrapper_dtor R dst w1))"

text \<open>The runtime calls a run has issued, when it did not fail.\<close>

definition calls_of :: "error + (DevicePtrWrapper \<times> 'm world) \<Rightarrow> error + rt_call list" where
  "calls_of r = (case r of Inl e \<Rightarrow> Inl e | Inr (h, w) \<Rightarrow> Inr (calls w))"

section \<open>Properties\<close>

subsection \<open>Unfolding\<close>

lemmas fake_defs = ok_runtime_def fake_runtime_def world0_def machine0_def

lemmas code_defs = allocate_def isExternal_def gpu_malloc_def gpu_free_def checkCudaErrors_def
  DevicePtrWrapper_dtor_def

subsection \<open>Lists of runtime calls\<close>

lemma frees_append: "frees (xs @ ys) = frees xs @ frees ys"
  by (induction xs rule: frees.induct) simp_all

lemma mallocs_append: "mallocs (xs @ ys) = mallocs xs @ mallocs ys"
  by (induction xs rule: mallocs.induct) simp_all

subsection \<open>The primitives\<close>

lemma gpu_free_null: "gpu_free R nullptr w = Inr w"
  by (simp add: gpu_free_def)

lemma gpu_free_nonnull:
  "p \<noteq> nullptr \<Longrightarrow>
   gpu_free R p w =
     Inr \<lparr>machine = snd (cudaFree R (machine w) p), calls = calls w @ [CudaFree p]\<rparr>"
  by (simp add: gpu_free_def split: prod.splits)

text \<open>
  Whatever status \<^verbatim>\<open>cudaFree\<close> reports, \<^verbatim>\<open>gpu_free\<close> returns normally; the other three
  primitives fail with the status the runtime reported.
\<close>

lemma gpu_free_never_raises: "gpu_free R p w \<noteq> Inl e"
  by (simp add: gpu_free_def split: prod.splits)

lemma gpu_malloc_raises:
  "cudaMalloc R (machine w) (szT * n) = (st, p, m') \<Longrightarrow> st \<noteq> cudaSuccess \<Longrightarrow>
   gpu_malloc R szT n w = Inl (RuntimeFailure st)"
  by (simp add: gpu_malloc_def checkCudaErrors_def)

lemma gpu_malloc_succeeds:
  "cudaMalloc R (machine w) (szT * n) = (cudaSuccess, p, m') \<Longrightarrow>
   gpu_malloc R szT n w =
     Inr (p, \<lparr>machine = m', calls = calls w @ [CudaMalloc (szT * n)]\<rparr>)"
  by (simp add: gpu_malloc_def checkCudaErrors_def)

lemma gpu_malloc_calls:
  "gpu_malloc R szT n w = Inr (p, w') \<Longrightarrow> calls w' = calls w @ [CudaMalloc (szT * n)]"
  by (auto simp add: gpu_malloc_def split: prod.splits sum.splits)

lemma gpu_memcpy_h2d_raises:
  "host \<noteq> nullptr \<Longrightarrow> device \<noteq> nullptr \<Longrightarrow>
   cudaMemcpy R (machine w) device host (szT * n) cudaMemcpyHostToDevice = (st, m') \<Longrightarrow>
   st \<noteq> cudaSuccess \<Longrightarrow>
   gpu_memcpy_h2d R szT device host n w = Inl (RuntimeFailure st)"
  by (simp add: gpu_memcpy_h2d_def checkCudaErrors_def)

lemma gpu_memcpy_d2h_raises:
  "host \<noteq> nullptr \<Longrightarrow> device \<noteq> nullptr \<Longrightarrow>
   cudaMemcpy R (machine w) host device (szT * n) cudaMemcpyDeviceToHost = (st, m') \<Longrightarrow>
   st \<noteq> cudaSuccess \<Longrightarrow>
   gpu_memcpy_d2h R szT host device n w = Inl (RuntimeFailure st)"
  by (simp add: gpu_memcpy_d2h_def checkCudaErrors_def)

text \<open>
  With both pointers set the fake runtime does transfer: the copy changes device memory.
\<close>

lemma memcpy_nonnull_transfers:
  "gpu_memcpy_h2d ok_runtime 1 0x1000 0x2000 3 world0 =
     Inr \<lparr>machine = machine0\<lparr>device_mem :=
              copy_bytes (device_mem machine0) 0x1000 (host_mem machine0) 0x2000 3\<rparr>,
          calls = [CudaMemcpy 0x1000 0x2000 3 cudaMemcpyHostToDevice]\<rparr>
   \<and> device_mem machine0 0x1001 = 0
   \<and> copy_bytes (device_mem machine0) 0x1000 (host_mem machine0) 0x2000 3 0x1001 = 7"
proof (intro conjI)
  show "gpu_memcpy_h2d ok_runtime 1 0x1000 0x2000 3 world0 =
     Inr \<lparr>machine = machine0\<lparr>device_mem :=
              copy_bytes (device_mem machine0) 0x1000 (host_mem machine0) 0x2000 3\<rparr>,
          calls = [CudaMemcpy 0x1000 0x2000 3 cudaMemcpyHostToDevice]\<rparr>"
    by (simp add: gpu_memcpy_h2d_def checkCudaErrors_def ok_runtime_def fake_runtime_def
        world0_def)
  show "device_mem machine0 0x1001 = 0"
    by (simp add: machine0_def)
  show "copy_bytes (device_mem machine0) 0x1000 (host_mem machine0) 0x2000 3 0x1001 = 7"
    by (simp add: copy_bytes_def machine0_def)
qed

subsection \<open>The four cases of allocate\<close>

lemma allocate_external: "isExternal h \<Longrightarrow> allocate R szT h n w = Inr (h, w)"
  by (simp add: allocate_def)

lemma allocate_reuse:
  "d_internal h \<noteq> nullptr \<Longrightarrow> n \<le> size_mem h \<Longrightarrow> allocate R szT h n w = Inr (h, w)"
  by (simp add: allocate_def leD)

lemma allocate_first:
  "\<not> isExternal h \<Longrightarrow> d_internal h = nullptr \<Longrightarrow>
   allocate R szT h n w =
     (case gpu_malloc R szT n w of
        Inl e \<Rightarrow> Inl e
      | Inr (p, w2) \<Rightarrow> Inr (h\<lparr>d_internal := p, size_mem := n\<rparr>, w2))"
  by (simp add: allocate_def)

lemma allocate_grow:
  "\<not> isExternal h \<Longrightarrow> d_internal h \<noteq> nullptr \<Longrightarrow> size_mem h < n \<Longrightarrow>
   allocate R szT h n w =
     (case gpu_malloc R szT n
             \<lparr>machine = snd (cudaFree R (machine w) (d_internal h)),
              calls = calls w @ [CudaFree (d_internal h)]\<rparr> of
        Inl e \<Rightarrow> Inl e
      | Inr (p, w2) \<Rightarrow> Inr (h\<lparr>d_internal := p, size_mem := n\<rparr>, w2))"
  by (simp add: allocate_def gpu_free_nonnull not_le[THEN iffD2])

lemma allocate_first_calls:
  assumes "\<not> isExternal h" "d_internal h = nullptr" "allocate R szT h n w = Inr (h', w')"
  shows "size_mem h' = n \<and> d_external h' = d_external h \<and>
    calls w' = calls w @ [CudaMalloc (szT * n)]"
  using assms by (auto simp add: allocate_first split: sum.splits dest: gpu_malloc_calls)

lemma allocate_grow_calls:
  assumes "\<not> isExternal h" "d_internal h \<noteq> nullptr" "size_mem h < n"
    "allocate R szT h n w = Inr (h', w')"
  shows "size_mem h' = n \<and> d_external h' = d_external h \<and>
    calls w' = calls w @ [CudaFree (d_internal h), CudaMalloc (szT * n)]"
  using assms by (auto simp add: allocate_grow split: sum.splits dest: gpu_malloc_calls)

subsection \<open>Sequences of operations\<close>

text \<open>
  One operation on a handle that holds an internal buffer either leaves the buffer, the
  recorded capacity and the call list as they were, or it is an \<^verbatim>\<open>allocate\<close> of a
  larger size, which frees the buffer and then allocates.
\<close>

lemma apply_op_with_buffer:
  assumes "d_internal h \<noteq> nullptr" "apply_op R szT x (h, w) = Inr (h', w')"
  shows "(size_mem h' = size_mem h \<and> d_internal h' = d_internal h \<and> calls w' = calls w) \<or>
         (\<exists>n. x = Allocate n \<and> size_mem h < n \<and> size_mem h' = n \<and>
              calls w' = calls w @ [CudaFree (d_internal h), CudaMalloc (szT * n)])"
proof (cases x)
  case (Allocate n)
  show ?thesis
  proof (cases "isExternal h \<or> n \<le> size_mem h")
    case True
    then have "allocate R szT h n w = Inr (h, w)"
      using assms(1) by (auto simp add: allocate_external allocate_reuse)
    then show ?thesis using assms(2) Allocate by simp
  next
    case False
    then have "\<not> isExternal h" "size_mem h < n" by auto
    then show ?thesis
      using allocate_grow_calls[of h n R szT w h' w'] assms Allocate by simp
  qed
next
  case (SetExternal d)
  then show ?thesis using assms(2) by (auto simp add: set_external_def)
next
  case UnsetExternal
  then show ?thesis using assms(2) by (auto simp add: unset_external_def)
next
  case (AssignPtr d)
  then show ?thesis using assms(2) by (auto simp add: assign_ptr_def set_external_def)
qed

lemma apply_op_calls_grow:
  assumes "apply_op R szT x (h, w) = Inr (h', w')"
  shows "\<exists>cs. calls w' = calls w @ cs"
proof (cases "d_internal h = nullptr")
  case False
  then show ?thesis using apply_op_with_buffer[OF _ assms] by auto
next
  case True
  show ?thesis
  proof (cases x)
    case (Allocate n)
    show ?thesis
    proof (cases "isExternal h")
      case True
      then show ?thesis using assms Allocate by (simp add: allocate_external)
    next
      case False
      then show ?thesis
        using allocate_first_calls[of h R szT n w h' w'] True assms Allocate by simp
    qed
  qed (use assms in auto)
qed

lemma run_ops_calls_grow:
  "run_ops R szT xs (h, w) = Inr (h', w') \<Longrightarrow> \<exists>cs. calls w' = calls w @ cs"
proof (induction xs arbitrary: h w)
  case Nil
  then show ?case by simp
next
  case (Cons x xs)
  from Cons.prems obtain h1 w1 where
    step: "apply_op R szT x (h, w) = Inr (h1, w1)" and
    rest: "run_ops R szT xs (h1, w1) = Inr (h', w')"
    by (auto split: sum.splits)
  from apply_op_calls_grow[OF step] Cons.IH[OF rest] show ?case by auto
qed

lemma run_ops_without_free:
  "run_ops R szT xs (h, w) = Inr (h', w') \<Longrightarrow> d_internal h \<noteq> nullptr \<Longrightarrow>
   frees (calls w') = frees (calls w) \<Longrightarrow>
   size_mem h' = size_mem h \<and> d_internal h' = d_internal h"
proof (induction xs arbitrary: h w)
  case Nil
  then show ?case by simp
next
  case (Cons x xs)
  from Cons.prems(1) obtain h1 w1 where
    step: "apply_op R szT x (h, w) = Inr (h1, w1)" and
    rest: "run_ops R szT xs (h1, w1) = Inr (h', w')"
    by (auto split: sum.splits)
  from run_ops_calls_grow[OF rest] obtain cs where cs: "calls w' = calls w1 @ cs" by blast
  from apply_op_with_buffer[OF Cons.prems(2) step]
  have same: "size_mem h1 = size_mem h \<and> d_internal h1 = d_internal h \<and> calls w1 = calls w"
  proof
    assume "size_mem h1 = size_mem h \<and> d_internal h1 = d_internal h \<and> calls w1 = calls w"
    then show ?thesis .
  next
    assume "\<exists>n. x = Allocate n \<and> size_mem h < n \<and> size_mem h1 = n \<and>
              calls w1 = calls w @ [CudaFree (d_internal h), CudaMalloc (szT * n)]"
    then have "frees (calls w') = frees (calls w) @ d_internal h # frees cs"
      using cs by (auto simp add: frees_append)
    with Cons.prems(3) show ?thesis by simp
  qed
  then have "d_internal h1 \<noteq> nullptr" "frees (calls w') = frees (calls w1)"
    using Cons.prems by simp_all
  from Cons.IH[OF rest this] same show ?case by simp
qed

subsection \<open>Moves and the destructor\<close>

lemma move_construct_keeps_source: "move_construct h = (h, h)"
  by (simp add: move_construct_def)

lemma move_assign_keeps_source:
  "snd (move_assign dst src) = src \<and>
   d_internal (fst (move_assign dst src)) = d_internal src"
  by (simp add: move_assign_def)

lemma dtor_with_internal:
  "d_internal h \<noteq> nullptr \<Longrightarrow>
   DevicePtrWrapper_dtor R h w =
     Inr \<lparr>machine = snd (cudaFree R (machine w) (d_internal h)),
          calls = calls w @ [CudaFree (d_internal h)]\<rparr>"
  by (simp add: DevicePtrWrapper_dtor_def gpu_free_nonnull)

lemma dtor_without_internal:
  "d_internal h = nullptr \<Longrightarrow> DevicePtrWrapper_dtor R h w = Inr w"
  by (simp add: DevicePtrWrapper_dtor_def)

text \<open>
  For every runtime and every handle that holds an internal buffer: after a move, the
  two destructors release the same buffer twice.
\<close>

lemma destroy_both_after_move_construct:
  assumes "d_internal h \<noteq> nullptr"
  shows "\<exists>w'. destroy_both R (move_construct h) w = Inr w' \<and>
               calls w' = calls w @ [CudaFree (d_internal h), CudaFree (d_internal h)]"
  using assms by (simp add: destroy_both_def move_construct_def dtor_with_internal)

lemma destroy_both_after_move_assign:
  assumes "d_internal src \<noteq> nullptr"
  shows "\<exists>w'. destroy_both R (move_assign dst src) w = Inr w' \<and>
               calls w' = calls w @ [CudaFree (d_internal src), CudaFree (d_internal src)]"
  using assms by (simp add: destroy_both_def move_assign_def dtor_with_internal)

section \<open>The claims\<close>

subsection \<open>C1: a moved-from handle and its buffer\<close>

text \<open>
  C1 says that moving a handle that owns an internal buffer leaves the moved-from handle
  in a state where its destructor releases nothing, so that the buffer is released
  exactly once over the lifetimes of both handles. The code does not do that: both move
  operations are defaulted and copy the pointer, so the source still holds the buffer.
  Evaluated on a handle that owns the buffer at \<open>0x1000\<close>: after a move construction,
  and after a move assignment into a default-constructed handle, the two destructors
  issue \<^verbatim>\<open>cudaFree(0x1000)\<close> twice.
\<close>

theorem moved_from_handle_frees_again:
  "destroy_both ok_runtime
     (move_construct \<lparr>d_external = nullptr, d_internal = 0x1000, size_mem = 8\<rparr>) world0 =
     Inr \<lparr>machine = machine0, calls = [CudaFree 0x1000, CudaFree 0x1000]\<rparr>
   \<and> destroy_both ok_runtime
     (move_assign DevicePtrWrapper_default
        \<lparr>d_external = nullptr, d_internal = 0x1000, size_mem = 8\<rparr>) world0 =
     Inr \<lparr>machine = machine0, calls = [CudaFree 0x1000, CudaFree 0x1000]\<rparr>"
  by (simp add: destroy_both_def move_construct_def move_assign_def DevicePtrWrapper_dtor_def
      gpu_free_def ok_runtime_def fake_runtime_def world0_def)

subsection \<open>C2: two allocations in a row on a fresh handle\<close>

text \<open>
  C2 as stated fails: with four-byte elements, \<^verbatim>\<open>allocate(2)\<close> followed by
  \<^verbatim>\<open>allocate(3)\<close> on a fresh handle issues two underlying allocations, of 8 and of 12
  bytes, with a release of the first buffer in between; not one allocation sized for 3.
\<close>

theorem allocate_twice_counterexample:
  "(2 :: size_t) \<le> 3 \<and>
   calls_of (allocate_twice ok_runtime 4 2 3 world0) =
     Inr [CudaMalloc 8, CudaFree 0x1000, CudaMalloc 12] \<and>
   mallocs [CudaMalloc 8, CudaFree 0x1000, CudaMalloc 12] = [8, 12]"
  by (simp add: allocate_twice_def calls_of_def code_defs fake_defs DevicePtrWrapper_default_def)

text \<open>
  C2, amended: let \<open>n1 \<le> n2\<close>, and let the runtime's allocations succeed with a
  non-null buffer. On a fresh handle, \<^verbatim>\<open>allocate(n1)\<close> then \<^verbatim>\<open>allocate(n2)\<close> issues,
  when \<open>n1 < n2\<close>, an allocation sized for \<open>n1\<close>, the release of that buffer and an
  allocation sized for \<open>n2\<close>, and when \<open>n1 = n2\<close> a single allocation sized for
  \<open>n2\<close>; the recorded capacity ends as \<open>n2\<close>. On a fresh handle, \<^verbatim>\<open>allocate(n2)\<close>
  issues one allocation sized for \<open>n2\<close>, and \<^verbatim>\<open>allocate(n1)\<close> after it changes nothing
  and calls nothing.
\<close>

theorem allocate_twice_growth:
  assumes "n1 \<le> n2"
  shows "(allocate R szT DevicePtrWrapper_default n1 w = Inr (h1, w1) \<and>
          d_internal h1 \<noteq> nullptr \<and> allocate R szT h1 n2 w1 = Inr (h2, w2) \<longrightarrow>
            size_mem h2 = n2 \<and>
            calls w2 = calls w @
              (if n1 < n2
               then [CudaMalloc (szT * n1), CudaFree (d_internal h1), CudaMalloc (szT * n2)]
               else [CudaMalloc (szT * n2)]))
       \<and> (allocate R szT DevicePtrWrapper_default n2 w = Inr (g1, v1) \<and>
          d_internal g1 \<noteq> nullptr \<longrightarrow>
            allocate R szT g1 n1 v1 = Inr (g1, v1) \<and>
            calls v1 = calls w @ [CudaMalloc (szT * n2)])"
proof (intro conjI impI)
  assume a: "allocate R szT DevicePtrWrapper_default n1 w = Inr (h1, w1) \<and>
          d_internal h1 \<noteq> nullptr \<and> allocate R szT h1 n2 w1 = Inr (h2, w2)"
  have fresh: "\<not> isExternal DevicePtrWrapper_default"
    "d_internal DevicePtrWrapper_default = nullptr"
    by (simp_all add: isExternal_def DevicePtrWrapper_default_def)
  from a allocate_first_calls[OF fresh, of R szT n1 w h1 w1]
  have h1: "size_mem h1 = n1" "d_external h1 = nullptr"
    "calls w1 = calls w @ [CudaMalloc (szT * n1)]"
    by (simp_all add: DevicePtrWrapper_default_def)
  then have ne: "\<not> isExternal h1" by (simp add: isExternal_def)
  have "size_mem h2 = n2 \<and> calls w2 = calls w @
              (if n1 < n2
               then [CudaMalloc (szT * n1), CudaFree (d_internal h1), CudaMalloc (szT * n2)]
               else [CudaMalloc (szT * n2)])"
  proof (cases "n1 < n2")
    case True
    then show ?thesis
      using allocate_grow_calls[OF ne, of n2 R szT w1 h2 w2] a h1 by simp
  next
    case False
    then have eq: "n1 = n2" using assms by simp
    then have "allocate R szT h1 n2 w1 = Inr (h1, w1)"
      using allocate_reuse[of h1 n2 R szT w1] a h1 by simp
    then show ?thesis using a h1 eq by simp
  qed
  then show "size_mem h2 = n2" and "calls w2 = calls w @
              (if n1 < n2
               then [CudaMalloc (szT * n1), CudaFree (d_internal h1), CudaMalloc (szT * n2)]
               else [CudaMalloc (szT * n2)])" by simp_all
next
  assume a: "allocate R szT DevicePtrWrapper_default n2 w = Inr (g1, v1) \<and>
          d_internal g1 \<noteq> nullptr"
  have fresh: "\<not> isExternal DevicePtrWrapper_default"
    "d_internal DevicePtrWrapper_default = nullptr"
    by (simp_all add: isExternal_def DevicePtrWrapper_default_def)
  from a allocate_first_calls[OF fresh, of R szT n2 w g1 v1]
  have g1: "size_mem g1 = n2" "calls v1 = calls w @ [CudaMalloc (szT * n2)]"
    by simp_all
  show "allocate R szT g1 n1 v1 = Inr (g1, v1)"
    using allocate_reuse[of g1 n1 R szT v1] a g1 assms by simp
  show "calls v1 = calls w @ [CudaMalloc (szT * n2)]" by (rule g1(2))
qed

text \<open>
  The amended C2 at \<open>n1 = 2\<close>, \<open>n2 = 3\<close> with four-byte elements on the fake runtime:
  both orders, each step evaluated.
\<close>

theorem allocate_twice_growth_witness:
  "(2 :: size_t) \<le> 3 \<and>
   allocate ok_runtime 4 DevicePtrWrapper_default 2 world0 =
     Inr (\<lparr>d_external = nullptr, d_internal = 0x1000, size_mem = 2\<rparr>,
          \<lparr>machine = machine0\<lparr>brk := 0x1009\<rparr>, calls = [CudaMalloc 8]\<rparr>) \<and>
   allocate ok_runtime 4 \<lparr>d_external = nullptr, d_internal = 0x1000, size_mem = 2\<rparr> 3
       \<lparr>machine = machine0\<lparr>brk := 0x1009\<rparr>, calls = [CudaMalloc 8]\<rparr> =
     Inr (\<lparr>d_external = nullptr, d_internal = 0x1009, size_mem = 3\<rparr>,
          \<lparr>machine = machine0\<lparr>brk := 0x1016\<rparr>,
           calls = [CudaMalloc 8, CudaFree 0x1000, CudaMalloc 12]\<rparr>) \<and>
   allocate ok_runtime 4 DevicePtrWrapper_default 3 world0 =
     Inr (\<lparr>d_external = nullptr, d_internal = 0x1000, size_mem = 3\<rparr>,
          \<lparr>machine = machine0\<lparr>brk := 0x100D\<rparr>, calls = [CudaMalloc 12]\<rparr>) \<and>
   allocate ok_runtime 4 \<lparr>d_external = nullptr, d_internal = 0x1000, size_mem = 3\<rparr> 2
       \<lparr>machine = machine0\<lparr>brk := 0x100D\<rparr>, calls = [CudaMalloc 12]\<rparr> =
     Inr (\<lparr>d_external = nullptr, d_internal = 0x1000, size_mem = 3\<rparr>,
          \<lparr>machine = machine0\<lparr>brk := 0x100D\<rparr>, calls = [CudaMalloc 12]\<rparr>)"
proof -
  have le: "(2 :: size_t) \<le> 3" by simp
  have a1: "allocate ok_runtime 4 DevicePtrWrapper_default 2 world0 =
     Inr (\<lparr>d_external = nullptr, d_internal = 0x1000, size_mem = 2\<rparr>,
          \<lparr>machine = machine0\<lparr>brk := 0x1009\<rparr>, calls = [CudaMalloc 8]\<rparr>)"
    by (simp add: code_defs fake_defs DevicePtrWrapper_default_def)
  have a2: "allocate ok_runtime 4 \<lparr>d_external = nullptr, d_internal = 0x1000, size_mem = 2\<rparr> 3
       \<lparr>machine = machine0\<lparr>brk := 0x1009\<rparr>, calls = [CudaMalloc 8]\<rparr> =
     Inr (\<lparr>d_external = nullptr, d_internal = 0x1009, size_mem = 3\<rparr>,
          \<lparr>machine = machine0\<lparr>brk := 0x1016\<rparr>,
           calls = [CudaMalloc 8, CudaFree 0x1000, CudaMalloc 12]\<rparr>)"
    by (simp add: code_defs fake_defs)
  have b1: "allocate ok_runtime 4 DevicePtrWrapper_default 3 world0 =
     Inr (\<lparr>d_external = nullptr, d_internal = 0x1000, size_mem = 3\<rparr>,
          \<lparr>machine = machine0\<lparr>brk := 0x100D\<rparr>, calls = [CudaMalloc 12]\<rparr>)"
    by (simp add: code_defs fake_defs DevicePtrWrapper_default_def)
  show ?thesis
    using allocate_twice_growth[OF le, of ok_runtime 4 world0
        "\<lparr>d_external = nullptr, d_internal = 0x1000, size_mem = 2\<rparr>"
        "\<lparr>machine = machine0\<lparr>brk := 0x1009\<rparr>, calls = [CudaMalloc 8]\<rparr>"
        "\<lparr>d_external = nullptr, d_internal = 0x1009, size_mem = 3\<rparr>"
        "\<lparr>machine = machine0\<lparr>brk := 0x1016\<rparr>,
           calls = [CudaMalloc 8, CudaFree 0x1000, CudaMalloc 12]\<rparr>"
        "\<lparr>d_external = nullptr, d_internal = 0x1000, size_mem = 3\<rparr>"
        "\<lparr>machine = machine0\<lparr>brk := 0x100D\<rparr>, calls = [CudaMalloc 12]\<rparr>"]
      le a1 a2 b1 by simp
qed

subsection \<open>C3: a failure status of the runtime\<close>

text \<open>
  C3 says that each of the four primitives fails whenever the runtime reports a status
  other than success, the free primitive on a non-null buffer included. \<^verbatim>\<open>gpu_malloc\<close>
  and the two copies do (\<open>gpu_malloc_raises\<close>, \<open>gpu_memcpy_h2d_raises\<close>,
  \<open>gpu_memcpy_d2h_raises\<close>); \<^verbatim>\<open>gpu_free\<close> does not. Evaluated on a runtime whose
  \<^verbatim>\<open>cudaFree\<close> reports \<^verbatim>\<open>cudaErrorInvalidValue\<close>: \<^verbatim>\<open>gpu_free\<close> of the non-null pointer
  \<open>0x1000\<close> issues the call and returns normally.
\<close>

theorem gpu_free_drops_status:
  "cudaFree (fake_runtime cudaSuccess cudaErrorInvalidValue cudaSuccess) machine0 0x1000 =
     (cudaErrorInvalidValue, machine0)
   \<and> gpu_free (fake_runtime cudaSuccess cudaErrorInvalidValue cudaSuccess) 0x1000 world0 =
     Inr \<lparr>machine = machine0, calls = [CudaFree 0x1000]\<rparr>"
  by (simp add: gpu_free_def fake_runtime_def world0_def)

subsection \<open>C4: the recorded capacity and when allocate allocates\<close>

text \<open>
  C4 as stated fails: on a fresh handle (no external reference, no internal buffer,
  capacity 0) \<^verbatim>\<open>allocate(0)\<close> calls \<^verbatim>\<open>cudaMalloc\<close>, although the requested size 0 does
  not exceed the recorded capacity 0.
\<close>

theorem allocate_zero_counterexample:
  "\<not> isExternal DevicePtrWrapper_default \<and>
   d_internal DevicePtrWrapper_default = nullptr \<and>
   \<not> size_mem DevicePtrWrapper_default < 0 \<and>
   calls_of (allocate ok_runtime 4 DevicePtrWrapper_default 0 world0) = Inr [CudaMalloc 0]"
  by (simp add: allocate_def isExternal_def DevicePtrWrapper_default_def gpu_malloc_def
      checkCudaErrors_def ok_runtime_def fake_runtime_def world0_def calls_of_def)

text \<open>
  C4, amended. First conjunct: \<^verbatim>\<open>allocate(n)\<close> does anything at all (changes the handle,
  calls the runtime, or fails) only if no external reference is set and either the
  handle has no internal buffer or \<open>n\<close> exceeds the recorded capacity. Second conjunct,
  the same read on the call list: an \<^verbatim>\<open>allocate(n)\<close> that returns with one more
  underlying allocation than before was called under that condition. Third conjunct:
  on a handle with an internal buffer, an operation (\<^verbatim>\<open>allocate\<close>, \<^verbatim>\<open>set_external\<close>,
  \<^verbatim>\<open>unset_external\<close>, assignment of a raw pointer) never decreases the recorded
  capacity, and it changes the capacity only by first freeing the internal buffer and
  then allocating. Fourth conjunct: over every sequence of these operations that starts
  with an internal buffer and issues no \<^verbatim>\<open>cudaFree\<close>, the recorded capacity and the
  internal buffer at the end are those at the start.
\<close>

theorem allocate_capacity_invariant:
  "(allocate R szT h n w \<noteq> Inr (h, w) \<longrightarrow>
      \<not> isExternal h \<and> (d_internal h = nullptr \<or> size_mem h < n))
   \<and> (allocate R szT h n w = Inr (h', w') \<and> mallocs (calls w') \<noteq> mallocs (calls w) \<longrightarrow>
      \<not> isExternal h \<and> (d_internal h = nullptr \<or> size_mem h < n))
   \<and> (d_internal h \<noteq> nullptr \<and> apply_op R szT x (h, w) = Inr (h', w') \<longrightarrow>
        size_mem h \<le> size_mem h' \<and>
        (size_mem h' = size_mem h \<and> calls w' = calls w
         \<or> (\<exists>k. calls w' = calls w @ [CudaFree (d_internal h), CudaMalloc (szT * k)])))
   \<and> (d_internal h \<noteq> nullptr \<and> run_ops R szT xs (h, w) = Inr (h2, w2) \<and>
        frees (calls w2) = frees (calls w) \<longrightarrow>
        size_mem h2 = size_mem h \<and> d_internal h2 = d_internal h)"
proof -
  have only_if: "\<not> isExternal h \<and> (d_internal h = nullptr \<or> size_mem h < n)"
    if a: "allocate R szT h n w \<noteq> Inr (h, w)"
  proof (rule ccontr)
    assume "\<not> (\<not> isExternal h \<and> (d_internal h = nullptr \<or> size_mem h < n))"
    then have "isExternal h \<or> (d_internal h \<noteq> nullptr \<and> n \<le> size_mem h)" by auto
    then show False using allocate_external allocate_reuse a by blast
  qed
  have step: "size_mem h \<le> size_mem h' \<and>
        (size_mem h' = size_mem h \<and> calls w' = calls w
         \<or> (\<exists>k. calls w' = calls w @ [CudaFree (d_internal h), CudaMalloc (szT * k)]))"
    if "d_internal h \<noteq> nullptr \<and> apply_op R szT x (h, w) = Inr (h', w')"
    using that apply_op_with_buffer[of h R szT x w h' w'] by auto
  show ?thesis
  proof (intro conjI impI)
    assume "allocate R szT h n w \<noteq> Inr (h, w)"
    then show "\<not> isExternal h" "d_internal h = nullptr \<or> size_mem h < n"
      using only_if by simp_all
  next
    assume "allocate R szT h n w = Inr (h', w') \<and> mallocs (calls w') \<noteq> mallocs (calls w)"
    then have "allocate R szT h n w \<noteq> Inr (h, w)" by auto
    then show "\<not> isExternal h" "d_internal h = nullptr \<or> size_mem h < n"
      using only_if by simp_all
  next
    assume "d_internal h \<noteq> nullptr \<and> apply_op R szT x (h, w) = Inr (h', w')"
    then show "size_mem h \<le> size_mem h'"
      "size_mem h' = size_mem h \<and> calls w' = calls w
         \<or> (\<exists>k. calls w' = calls w @ [CudaFree (d_internal h), CudaMalloc (szT * k)])"
      using step by simp_all
  next
    assume "d_internal h \<noteq> nullptr \<and> run_ops R szT xs (h, w) = Inr (h2, w2) \<and>
        frees (calls w2) = frees (calls w)"
    then show "size_mem h2 = size_mem h" "d_internal h2 = d_internal h"
      using run_ops_without_free by blast+
  qed
qed

text \<open>
  The amended C4 on a handle that holds the buffer \<open>0x800\<close> with capacity 2:
  \<^verbatim>\<open>allocate(3)\<close> frees it and allocates 12 bytes, and the capacity grows from 2 to 3; a
  sequence that sets an external reference, allocates under it, clears it and allocates
  a smaller size issues no call and leaves the handle as it was.
\<close>

theorem allocate_capacity_invariant_witness:
  "allocate ok_runtime 4 \<lparr>d_external = nullptr, d_internal = 0x800, size_mem = 2\<rparr> 3 world0 =
     Inr (\<lparr>d_external = nullptr, d_internal = 0x1000, size_mem = 3\<rparr>,
          \<lparr>machine = machine0\<lparr>brk := 0x100D\<rparr>,
           calls = [CudaFree 0x800, CudaMalloc 12]\<rparr>) \<and>
   mallocs [CudaFree 0x800, CudaMalloc 12] \<noteq> mallocs (calls world0) \<and>
   \<not> isExternal \<lparr>d_external = nullptr, d_internal = 0x800, size_mem = 2\<rparr> \<and>
   (2 :: size_t) < 3 \<and>
   d_internal \<lparr>d_external = nullptr, d_internal = 0x800, size_mem = 2\<rparr> \<noteq> nullptr \<and>
   apply_op ok_runtime 4 (Allocate 3)
       (\<lparr>d_external = nullptr, d_internal = 0x800, size_mem = 2\<rparr>, world0) =
     Inr (\<lparr>d_external = nullptr, d_internal = 0x1000, size_mem = 3\<rparr>,
          \<lparr>machine = machine0\<lparr>brk := 0x100D\<rparr>,
           calls = [CudaFree 0x800, CudaMalloc 12]\<rparr>) \<and>
   (2 :: size_t) \<le> 3 \<and>
   run_ops ok_runtime 4 [SetExternal 0x2000, Allocate 9, UnsetExternal, Allocate 1]
       (\<lparr>d_external = nullptr, d_internal = 0x800, size_mem = 2\<rparr>, world0) =
     Inr (\<lparr>d_external = nullptr, d_internal = 0x800, size_mem = 2\<rparr>, world0)"
proof -
  have s: "allocate ok_runtime 4 \<lparr>d_external = nullptr, d_internal = 0x800, size_mem = 2\<rparr> 3
       world0 =
     Inr (\<lparr>d_external = nullptr, d_internal = 0x1000, size_mem = 3\<rparr>,
          \<lparr>machine = machine0\<lparr>brk := 0x100D\<rparr>,
           calls = [CudaFree 0x800, CudaMalloc 12]\<rparr>)"
    by (simp add: code_defs fake_defs)
  have r: "run_ops ok_runtime 4 [SetExternal 0x2000, Allocate 9, UnsetExternal, Allocate 1]
       (\<lparr>d_external = nullptr, d_internal = 0x800, size_mem = 2\<rparr>, world0) =
     Inr (\<lparr>d_external = nullptr, d_internal = 0x800, size_mem = 2\<rparr>, world0)"
    by (simp add: code_defs set_external_def unset_external_def word_le_nat_alt
        word_less_nat_alt)
  have m: "mallocs [CudaFree 0x800, CudaMalloc 12] \<noteq> mallocs (calls world0)"
    by (simp add: world0_def)
  show ?thesis
    using allocate_capacity_invariant[of ok_runtime 4
        "\<lparr>d_external = nullptr, d_internal = 0x800, size_mem = 2\<rparr>" 3 world0
        "\<lparr>d_external = nullptr, d_internal = 0x1000, size_mem = 3\<rparr>"
        "\<lparr>machine = machine0\<lparr>brk := 0x100D\<rparr>,
           calls = [CudaFree 0x800, CudaMalloc 12]\<rparr>"
        "Allocate 3"
        "[SetExternal 0x2000, Allocate 9, UnsetExternal, Allocate 1]"
        "\<lparr>d_external = nullptr, d_internal = 0x800, size_mem = 2\<rparr>" world0] s r m
    by (simp add: isExternal_def)
qed

subsection \<open>C5: allocate under an external reference\<close>

text \<open>
  C5: for every handle with a non-null external reference, \<^verbatim>\<open>allocate\<close> with any size
  returns the same handle in the same world (so the internal pointer and the recorded
  capacity are unchanged, no runtime call is issued and nothing fails), and \<^verbatim>\<open>get()\<close>
  returns the external reference.
\<close>

theorem allocate_external_noop:
  assumes "d_external h \<noteq> nullptr"
  shows "allocate R szT h n w = Inr (h, w) \<and> get h = d_external h"
  using assms by (simp add: allocate_def isExternal_def get_def)

theorem allocate_external_noop_witness:
  "d_external \<lparr>d_external = 0x2000, d_internal = 0x1000, size_mem = 2\<rparr> \<noteq> nullptr \<and>
   allocate ok_runtime 4 \<lparr>d_external = 0x2000, d_internal = 0x1000, size_mem = 2\<rparr> 64 world0 =
     Inr (\<lparr>d_external = 0x2000, d_internal = 0x1000, size_mem = 2\<rparr>, world0) \<and>
   get \<lparr>d_external = 0x2000, d_internal = 0x1000, size_mem = 2\<rparr> = 0x2000"
  using allocate_external_noop[of "\<lparr>d_external = 0x2000, d_internal = 0x1000, size_mem = 2\<rparr>"
      ok_runtime 4 64 world0]
  by simp

subsection \<open>C6: the accessor and the conversion to bool\<close>

text \<open>
  C6: in every handle state \<^verbatim>\<open>get()\<close> returns the external reference when it is
  non-null and the internal buffer reference otherwise; the conversion to \<^verbatim>\<open>bool\<close> is
  true exactly when \<^verbatim>\<open>get()\<close> is non-null; a default-constructed handle has \<^verbatim>\<open>get()\<close>
  null and converts to false. \<^verbatim>\<open>get\<close> is \<^verbatim>\<open>const\<close> and calls no primitive: its model
  takes the handle only and returns the pointer only, so it cannot allocate.
\<close>

theorem get_reads_external_first:
  "get h = (if d_external h \<noteq> nullptr then d_external h else d_internal h)
   \<and> operator_bool h = (get h \<noteq> nullptr)
   \<and> get DevicePtrWrapper_default = nullptr
   \<and> \<not> operator_bool DevicePtrWrapper_default"
  by (simp add: get_def isExternal_def operator_bool_def DevicePtrWrapper_default_def)

subsection \<open>C7: copies with a null pointer\<close>

text \<open>
  C7: for both copy primitives and every element count, if the host pointer or the
  device pointer is null, the call returns normally in the world it started in: no
  runtime call is issued and the machine state, which holds the contents of every host
  and device buffer, is the same.
\<close>

theorem memcpy_null_is_noop:
  assumes "host = nullptr \<or> device = nullptr"
  shows "gpu_memcpy_h2d R szT device host n w = Inr w \<and>
         gpu_memcpy_d2h R szT host device n w = Inr w"
  using assms by (auto simp add: gpu_memcpy_h2d_def gpu_memcpy_d2h_def)

theorem memcpy_null_is_noop_witness:
  "gpu_memcpy_h2d ok_runtime 4 0x1000 nullptr 3 world0 = Inr world0 \<and>
   gpu_memcpy_d2h ok_runtime 4 nullptr 0x1000 3 world0 = Inr world0 \<and>
   gpu_memcpy_h2d ok_runtime 4 nullptr 0x2000 3 world0 = Inr world0 \<and>
   gpu_memcpy_d2h ok_runtime 4 0x2000 nullptr 3 world0 = Inr world0"
  using memcpy_null_is_noop[of nullptr "0x1000" ok_runtime 4 3 world0]
    memcpy_null_is_noop[of "0x2000" nullptr ok_runtime 4 3 world0]
  by simp

subsection \<open>C8: setting and clearing the external reference\<close>

text \<open>
  C8: \<^verbatim>\<open>set_external\<close> with a null reference gives the same handle state as
  \<^verbatim>\<open>unset_external\<close>; and for every handle with an internal buffer, after setting a
  non-null external reference \<^verbatim>\<open>get()\<close> returns it, and after clearing it again
  \<^verbatim>\<open>get()\<close> returns the internal buffer.
\<close>

theorem set_unset_external:
  "set_external h nullptr = unset_external h
   \<and> (d_internal h \<noteq> nullptr \<and> p \<noteq> nullptr \<longrightarrow>
        get (set_external h p) = p \<and>
        get (unset_external (set_external h p)) = d_internal h)"
  by (simp add: set_external_def unset_external_def get_def isExternal_def)

theorem set_unset_external_witness:
  "set_external \<lparr>d_external = 0x3000, d_internal = 0x1000, size_mem = 2\<rparr> nullptr =
     unset_external \<lparr>d_external = 0x3000, d_internal = 0x1000, size_mem = 2\<rparr> \<and>
   d_internal \<lparr>d_external = 0x3000, d_internal = 0x1000, size_mem = 2\<rparr> \<noteq> nullptr \<and>
   (0x2000 :: ptr) \<noteq> nullptr \<and>
   get (set_external \<lparr>d_external = 0x3000, d_internal = 0x1000, size_mem = 2\<rparr> 0x2000) =
     0x2000 \<and>
   get (unset_external
         (set_external \<lparr>d_external = 0x3000, d_internal = 0x1000, size_mem = 2\<rparr> 0x2000)) =
     0x1000"
  using set_unset_external[of "\<lparr>d_external = 0x3000, d_internal = 0x1000, size_mem = 2\<rparr>"
      "0x2000"]
  by simp

subsection \<open>C9: the destructor\<close>

text \<open>
  C9: the destructor is the free primitive applied to the internal pointer; the free
  primitive on a null pointer returns in the world it started in; the destructor never
  fails; with no internal buffer it changes nothing and issues no call; when it returns,
  the calls it has issued are the one \<^verbatim>\<open>cudaFree\<close> of the internal buffer if there is
  one and none otherwise; and it does not depend on the external reference, which it
  never passes to the runtime.
\<close>

theorem dtor_frees_internal_only:
  "DevicePtrWrapper_dtor R h w = gpu_free R (d_internal h) w
   \<and> gpu_free R nullptr w = Inr w
   \<and> DevicePtrWrapper_dtor R h w \<noteq> Inl e
   \<and> (d_internal h = nullptr \<longrightarrow> DevicePtrWrapper_dtor R h w = Inr w)
   \<and> (DevicePtrWrapper_dtor R h w = Inr w' \<longrightarrow>
        calls w' =
          calls w @ (if d_internal h \<noteq> nullptr then [CudaFree (d_internal h)] else []))
   \<and> DevicePtrWrapper_dtor R (h\<lparr>d_external := d\<rparr>) w = DevicePtrWrapper_dtor R h w"
  by (auto simp add: DevicePtrWrapper_dtor_def gpu_free_def split: prod.splits)

theorem dtor_frees_internal_only_witness:
  "DevicePtrWrapper_dtor ok_runtime
       \<lparr>d_external = 0x2000, d_internal = 0x1000, size_mem = 2\<rparr> world0 =
     Inr \<lparr>machine = machine0, calls = [CudaFree 0x1000]\<rparr> \<and>
   d_internal \<lparr>d_external = 0x2000, d_internal = nullptr, size_mem = 0\<rparr> = nullptr \<and>
   DevicePtrWrapper_dtor ok_runtime
       \<lparr>d_external = 0x2000, d_internal = nullptr, size_mem = 0\<rparr> world0 =
     Inr world0"
proof -
  have d: "DevicePtrWrapper_dtor ok_runtime
      \<lparr>d_external = 0x2000, d_internal = 0x1000, size_mem = 2\<rparr> world0 =
     Inr \<lparr>machine = machine0, calls = [CudaFree 0x1000]\<rparr>"
    by (simp add: code_defs fake_defs)
  show ?thesis
    using dtor_frees_internal_only[of ok_runtime
        "\<lparr>d_external = 0x2000, d_internal = 0x1000, size_mem = 2\<rparr>" world0
        "RuntimeFailure cudaErrorInvalidValue"
        "\<lparr>machine = machine0, calls = [CudaFree 0x1000]\<rparr>" nullptr]
      dtor_frees_internal_only[of ok_runtime
        "\<lparr>d_external = 0x2000, d_internal = nullptr, size_mem = 0\<rparr>" world0
        "RuntimeFailure cudaErrorInvalidValue" world0 nullptr] d
    by simp
qed

subsection \<open>C10: assignment of a raw pointer\<close>

text \<open>
  C10: for every handle state and every pointer, null included, the raw-pointer
  assignment operator gives the same handle as \<^verbatim>\<open>set_external\<close>; as operations both
  return normally in the world they started in, so neither frees nor allocates; and the
  internal pointer and the recorded capacity are unchanged.
\<close>

theorem assign_ptr_is_set_external:
  "assign_ptr h p = set_external h p
   \<and> apply_op R szT (AssignPtr p) (h, w) = apply_op R szT (SetExternal p) (h, w)
   \<and> apply_op R szT (AssignPtr p) (h, w) = Inr (h\<lparr>d_external := p\<rparr>, w)
   \<and> d_internal (assign_ptr h p) = d_internal h
   \<and> size_mem (assign_ptr h p) = size_mem h"
  by (simp add: assign_ptr_def set_external_def)

end
